theory Spec2Isabelle
  imports Complex_Main "HOL-Library.Word" "HOL-Library.Log_Nat" "HOL-Library.Multiset"
begin

section \<open>Binary64 arithmetic\<close>

text \<open>
  The decay update of \<^verbatim>\<open>hostentry.go\<close> computes in Go's \<^verbatim>\<open>float64\<close>. A finite
  \<^verbatim>\<open>float64\<close> is a rational number, and every arithmetic operation returns the exact
  result rounded to the nearest representable value, ties to the even significand
  (53 bits of precision, least exponent \<open>-1022\<close>, so that subnormal numbers are multiples
  of \<open>2 powi -1074\<close>).  The model keeps the value as a \<^typ>\<open>rat\<close> and rounds after each
  operation, one operation at a time (no fused multiply-add).

  Infinities and NaN are not represented: with counters below \<open>2 ^ 64\<close> and
  constants that fit a \<^verbatim>\<open>float64\<close> and lie in the ranges the specification gives
  (\<open>valid_consts\<close> below) every intermediate value is finite and no division by zero
  is reached.
\<close>

type_synonym float64 = rat

definition round_even :: "rat \<Rightarrow> int" where
  "round_even x =
     (let f = \<lfloor>x\<rfloor>; d = x - of_int f
      in if d < 1 / 2 then f
         else if 1 / 2 < d then f + 1
         else if even f then f else f + 1)"

definition ilog2 :: "rat \<Rightarrow> int" where
  \<comment> \<open>\<open>\<lfloor>log\<^sub>2 \<bar>x\<bar>\<rfloor>\<close> for \<open>x \<noteq> 0\<close>, from the bit lengths of numerator and denominator\<close>
  "ilog2 x =
     (case quotient_of \<bar>x\<bar> of
        (p, q) \<Rightarrow> let e = bitlen p - bitlen q in if 2 powi e \<le> \<bar>x\<bar> then e else e - 1)"

definition fl64 :: "rat \<Rightarrow> float64" where
  "fl64 x =
     (if x = 0 then 0
      else let e = max (ilog2 x) (- 1022) - 52
           in of_int (round_even (x / 2 powi e)) * 2 powi e)"

definition fadd :: "float64 \<Rightarrow> float64 \<Rightarrow> float64" where
  "fadd x y = fl64 (x + y)"

definition fmul :: "float64 \<Rightarrow> float64 \<Rightarrow> float64" where
  "fmul x y = fl64 (x * y)"

definition fdiv :: "float64 \<Rightarrow> float64 \<Rightarrow> float64" where
  "fdiv x y = fl64 (x / y)"

text \<open>
  \<^verbatim>\<open>math.Pow\<close> belongs to Go's standard library.  It returns 1 for \<open>y = 0\<close> or \<open>x = 1\<close>
  and \<open>x\<close> itself for \<open>y = 1\<close>; elsewhere the model takes the correctly rounded power.
  The decay update only calls it with \<open>y = float64(passedTime - 1)\<close>, a non-negative
  whole number.  The library squares repeatedly and rounds at every step, so from the
  exponent 4 on its result can differ from the model's in the last places; the theorems
  below use the value of \<open>Pow\<close> at the exponents 1 and 2 only, where the two agree,
  and otherwise only that it lies between 0 and 1 for a base between 0 and 1.
\<close>

definition Pow :: "float64 \<Rightarrow> float64 \<Rightarrow> float64" where
  "Pow x y =
     (if y = 0 \<or> x = 1 then 1
      else if y = 1 then x
      else fl64 (x ^ nat \<lfloor>y\<rfloor>))"

text \<open>
  The conversions \<^verbatim>\<open>float64(u)\<close> and \<^verbatim>\<open>uint64(f)\<close>.  The second one truncates towards
  zero; where the truncated value is not a \<^verbatim>\<open>uint64\<close> Go leaves the result to the
  implementation, which is the parameter \<open>oor\<close> here.
\<close>

type_synonym uint64 = "64 word"

definition float64_of_uint64 :: "uint64 \<Rightarrow> float64" where
  "float64_of_uint64 w = fl64 (of_int (uint w))"

definition uint64_of_float64 :: "(float64 \<Rightarrow> uint64) \<Rightarrow> float64 \<Rightarrow> uint64" where
  "uint64_of_float64 oor x =
     (if 0 \<le> x \<and> x < 2 ^ 64 then word_of_int \<lfloor>x\<rfloor>
      else if - 1 < x \<and> x < 0 then 0
      else oor x)"

section \<open>Host records and the decay update (\<^verbatim>\<open>hostdb/hostentry.go\<close>)\<close>

type_synonym BlockHeight = uint64
type_synonym SiaPublicKey = string

text \<open>
  The fields of \<^verbatim>\<open>modules.HostDBEntry\<close> that \<^verbatim>\<open>hostentry.go\<close> reads or writes.  The
  four counters are \<^verbatim>\<open>uint64\<close>: the update stores \<^verbatim>\<open>uint64(hsi)\<close> into them and the
  increments use \<^verbatim>\<open>++\<close>.
\<close>

record HostDBEntry =
  PublicKey :: SiaPublicKey
  HistoricSuccessfulInteractions :: uint64
  HistoricFailedInteractions :: uint64
  RecentSuccessfulInteractions :: uint64
  RecentFailedInteractions :: uint64
  LastHistoricUpdate :: BlockHeight

text \<open>
  Modelled from the spec: the three package constants of \<^verbatim>\<open>hostdb\<close> are declared
  outside the given sources; the specification names them \<open>DecayFactor\<close>, \<open>DecayLimit\<close>
  and \<open>WeightLimit\<close> with \<open>0 < DecayFactor < 1\<close>, \<open>DecayLimit\<close> positive and
  \<open>WeightLimit\<close> in \<open>(0, 1]\<close>.  They are Go constants: their exact values are kept
  here, a product of two constants is exact, and a constant is rounded to \<^verbatim>\<open>float64\<close>
  where it meets a \<^verbatim>\<open>float64\<close> operand.  The record also carries the platform's
  result for an out-of-range \<^verbatim>\<open>uint64(f)\<close>.
\<close>

record hostdb_consts =
  historicInteractionDecay :: rat
  historicInteractionDecayLimit :: rat
  recentInteractionWeightLimit :: rat
  uint64_out_of_range :: "float64 \<Rightarrow> uint64"

definition valid_consts :: "hostdb_consts \<Rightarrow> bool" where
  "valid_consts c \<longleftrightarrow>
     0 < historicInteractionDecay c \<and> historicInteractionDecay c < 1 \<and>
     0 < historicInteractionDecayLimit c \<and>
     0 < recentInteractionWeightLimit c \<and> recentInteractionWeightLimit c \<le> 1"

text \<open>Lines 30-34: the decay of a single block.\<close>

definition decayOnce :: "hostdb_consts \<Rightarrow> float64 \<times> float64 \<Rightarrow> float64 \<times> float64" where
  "decayOnce c h =
     (case h of (hsi, hfi) \<Rightarrow>
        if fadd hsi hfi > fl64 (historicInteractionDecayLimit c)
        then let decay = fl64 (historicInteractionDecay c)
             in (fmul hsi decay, fmul hfi decay)
        else (hsi, hfi))"

text \<open>Lines 43-55: the recent interactions, scaled down to their weight limit.\<close>

definition clampRecent ::
  "hostdb_consts \<Rightarrow> float64 \<times> float64 \<Rightarrow> float64 \<times> float64 \<Rightarrow> float64 \<times> float64" where
  "clampRecent c h r =
     (case h of (hsi, hfi) \<Rightarrow> case r of (rsi, rfi) \<Rightarrow>
        if fadd hsi hfi > fl64 (historicInteractionDecayLimit c)
        then
          if fadd rsi rfi > fmul (fl64 (recentInteractionWeightLimit c)) (fadd hsi hfi)
          then let adjustment =
                     fdiv (fmul (fl64 (recentInteractionWeightLimit c)) (fadd hsi hfi))
                          (fadd rsi rfi)
               in (fmul rsi adjustment, fmul rfi adjustment)
          else (rsi, rfi)
        else
          if fadd rsi rfi
               > fl64 (recentInteractionWeightLimit c * historicInteractionDecayLimit c)
          then let adjustment =
                     fdiv (fl64 (recentInteractionWeightLimit c
                                   * historicInteractionDecayLimit c))
                          (fadd rsi rfi)
               in (fmul rsi adjustment, fmul rfi adjustment)
          else (rsi, rfi))"

text \<open>Lines 56-57: the merge.\<close>

definition mergeRecent :: "float64 \<times> float64 \<Rightarrow> float64 \<times> float64 \<Rightarrow> float64 \<times> float64" where
  "mergeRecent h r = (case h of (hsi, hfi) \<Rightarrow> case r of (rsi, rfi) \<Rightarrow> (fadd hsi rsi, fadd hfi rfi))"

text \<open>Lines 60-64: the decay of the remaining blocks.\<close>

definition decayRest :: "hostdb_consts \<Rightarrow> uint64 \<Rightarrow> float64 \<times> float64 \<Rightarrow> float64 \<times> float64" where
  "decayRest c passedTime h =
     (case h of (hsi, hfi) \<Rightarrow>
        if passedTime > 1 \<and> fadd hsi hfi > fl64 (historicInteractionDecayLimit c)
        then let decay = Pow (fl64 (historicInteractionDecay c))
                             (float64_of_uint64 (passedTime - 1))
             in (fmul hsi decay, fmul hfi decay)
        else (hsi, hfi))"

text \<open>The values of \<open>hsi\<close> and \<open>hfi\<close> after line 34 and after line 57.\<close>

definition decayedHistoric :: "hostdb_consts \<Rightarrow> HostDBEntry \<Rightarrow> float64 \<times> float64" where
  "decayedHistoric c host =
     decayOnce c (float64_of_uint64 (HistoricSuccessfulInteractions host),
                  float64_of_uint64 (HistoricFailedInteractions host))"

definition clampedRecent :: "hostdb_consts \<Rightarrow> HostDBEntry \<Rightarrow> float64 \<times> float64" where
  "clampedRecent c host =
     clampRecent c (decayedHistoric c host)
       (float64_of_uint64 (RecentSuccessfulInteractions host),
        float64_of_uint64 (RecentFailedInteractions host))"

definition mergedHistoric :: "hostdb_consts \<Rightarrow> HostDBEntry \<Rightarrow> float64 \<times> float64" where
  "mergedHistoric c host = mergeRecent (decayedHistoric c host) (clampedRecent c host)"

text \<open>The sum of a pair of counters, as an exact number.\<close>

definition total :: "float64 \<times> float64 \<Rightarrow> rat" where
  "total p = fst p + snd p"

definition updateHostHistoricInteractions ::
  "hostdb_consts \<Rightarrow> HostDBEntry \<Rightarrow> BlockHeight \<Rightarrow> HostDBEntry" where
  "updateHostHistoricInteractions c host bh =
     (let passedTime = bh - LastHistoricUpdate host
      in if passedTime = 0 then host
         else case decayRest c passedTime (mergedHistoric c host) of
           (hsi, hfi) \<Rightarrow>
             host\<lparr>HistoricSuccessfulInteractions := uint64_of_float64 (uint64_out_of_range c) hsi,
                  HistoricFailedInteractions := uint64_of_float64 (uint64_out_of_range c) hfi,
                  RecentSuccessfulInteractions := 0,
                  RecentFailedInteractions := 0,
                  LastHistoricUpdate := bh\<rparr>)"

section \<open>The tracker (\<^verbatim>\<open>HostDB\<close>)\<close>

text \<open>
  Modelled from the spec: the host directory \<^verbatim>\<open>hdb.hostTree\<close> is implemented outside
  the given sources.  \<open>Select\<close> looks a record up by its public key and reports
  whether it was found; \<open>Modify\<close> replaces the stored record keyed by the identity of
  the record it is given.
\<close>

type_synonym HostTree = "SiaPublicKey \<rightharpoonup> HostDBEntry"

definition Select :: "HostTree \<Rightarrow> SiaPublicKey \<Rightarrow> HostDBEntry option" where
  "Select t key = t key"

definition Modify :: "HostTree \<Rightarrow> HostDBEntry \<Rightarrow> HostTree" where
  "Modify t host = t(PublicKey host \<mapsto> host)"

record HostDB =
  hostTree :: HostTree
  blockHeight :: BlockHeight
  online :: bool

definition IncrementSuccessfulInteractions :: "hostdb_consts \<Rightarrow> SiaPublicKey \<Rightarrow> HostDB \<Rightarrow> HostDB" where
  "IncrementSuccessfulInteractions c key hdb =
     (case Select (hostTree hdb) key of
        None \<Rightarrow> hdb
      | Some host \<Rightarrow>
          let host = updateHostHistoricInteractions c host (blockHeight hdb);
              host = host\<lparr>RecentSuccessfulInteractions := RecentSuccessfulInteractions host + 1\<rparr>
          in hdb\<lparr>hostTree := Modify (hostTree hdb) host\<rparr>)"

definition IncrementFailedInteractions :: "hostdb_consts \<Rightarrow> SiaPublicKey \<Rightarrow> HostDB \<Rightarrow> HostDB" where
  "IncrementFailedInteractions c key hdb =
     (case Select (hostTree hdb) key of
        None \<Rightarrow> hdb
      | Some host \<Rightarrow>
          if \<not> online hdb then hdb
          else
            let host = updateHostHistoricInteractions c host (blockHeight hdb);
                host = host\<lparr>RecentFailedInteractions := RecentFailedInteractions host + 1\<rparr>
            in hdb\<lparr>hostTree := Modify (hostTree hdb) host\<rparr>)"

section \<open>Files and their pieces (\<^verbatim>\<open>renter/files.go\<close>)\<close>

text \<open>
  The structures of \<^verbatim>\<open>files.go\<close>, with the fields its functions use (\<open>File\<close> is
  its \<^verbatim>\<open>file\<close>, \<open>renterBlockHeight\<close> the renter's \<^verbatim>\<open>blockHeight\<close>).  The lock of the
  renter is taken and released by every function and has no effect on the result of a
  single call, so it is left out; the back-pointer \<^verbatim>\<open>f.renter\<close> is replaced by passing
  the renter to the function that reads it.  Go's \<^verbatim>\<open>int\<close> is an \<^typ>\<open>int\<close> here: the
  only arithmetic on it counts the pieces of one slice.
\<close>

record FileContract =
  WindowStart :: BlockHeight

record filePiece =
  Active :: bool
  Repairing :: bool
  Contract :: FileContract
  PieceIndex :: int

record File =
  Name :: string
  PiecesRequired :: int
  OptimalRecoveryPieces :: int
  TotalPieces :: int
  Pieces :: "filePiece list"

record Renter =
  files :: "string \<rightharpoonup> File"
  renterBlockHeight :: BlockHeight

text \<open>The loop of \<^verbatim>\<open>Available\<close>, from the pieces still to visit and the count so far.\<close>

fun Available_loop :: "int \<Rightarrow> int \<Rightarrow> filePiece list \<Rightarrow> bool" where
  "Available_loop required active [] = False"
| "Available_loop required active (piece # rest) =
     (let active = (if Active piece then active + 1 else active)
      in if active \<ge> required then True else Available_loop required active rest)"

definition Available :: "File \<Rightarrow> bool" where
  "Available f = Available_loop (PiecesRequired f) 0 (Pieces f)"

definition TimeRemaining :: "Renter \<Rightarrow> File \<Rightarrow> BlockHeight" where
  "TimeRemaining r f =
     (if length (Pieces f) = 0 then 0
      else if WindowStart (Contract (Pieces f ! 0)) < renterBlockHeight r then 0
      else WindowStart (Contract (Pieces f ! 0)) - renterBlockHeight r)"

text \<open>
  \<^verbatim>\<open>Rename\<close> returns an error made by \<^verbatim>\<open>errors.New\<close> from one of two messages, or
  \<^verbatim>\<open>nil\<close>.  The model returns the error (if any) together with the renter afterwards.
  \<^verbatim>\<open>r.save()\<close> writes the renter to disk and leaves it as it is.
\<close>

datatype error = errors_New string

definition Rename :: "Renter \<Rightarrow> string \<Rightarrow> string \<Rightarrow> error option \<times> Renter" where
  "Rename r currentName newName =
     (case files r currentName of
        None \<Rightarrow> (Some (errors_New ''no file found by that name''), r)
      | Some entry \<Rightarrow>
          (case files r newName of
             Some other \<Rightarrow> (Some (errors_New ''file of new name already exists''), r)
           | None \<Rightarrow>
               let fs = (files r)(currentName := None);
                   entry = entry\<lparr>Name := newName\<rparr>;
                   fs = fs(newName \<mapsto> entry)
               in (None, r\<lparr>files := fs\<rparr>)))"

text \<open>The two errors of \<^verbatim>\<open>Rename\<close>, under the names the specification gives them.\<close>

definition errNotFound :: error where
  "errNotFound = errors_New ''no file found by that name''"

definition errAlreadyExists :: error where
  "errAlreadyExists = errors_New ''file of new name already exists''"

section \<open>The collapsed decay\<close>

text \<open>
  The alternative that the specification's design notes warn against, written from
  their words: a single decay by \<open>DecayFactor ^ \<Delta>\<close> applied before the recent
  counters are merged, and no decay after the merge.  Everything else is as in
  \<open>updateHostHistoricInteractions\<close>.
\<close>

definition decayCollapsed ::
  "hostdb_consts \<Rightarrow> uint64 \<Rightarrow> float64 \<times> float64 \<Rightarrow> float64 \<times> float64" where
  "decayCollapsed c passedTime h =
     (case h of (hsi, hfi) \<Rightarrow>
        if fadd hsi hfi > fl64 (historicInteractionDecayLimit c)
        then let decay = Pow (fl64 (historicInteractionDecay c)) (float64_of_uint64 passedTime)
             in (fmul hsi decay, fmul hfi decay)
        else (hsi, hfi))"

definition updateCollapsed :: "hostdb_consts \<Rightarrow> HostDBEntry \<Rightarrow> BlockHeight \<Rightarrow> HostDBEntry" where
  "updateCollapsed c host bh =
     (let passedTime = bh - LastHistoricUpdate host
      in if passedTime = 0 then host
         else
           let h = decayCollapsed c passedTime
                     (float64_of_uint64 (HistoricSuccessfulInteractions host),
                      float64_of_uint64 (HistoricFailedInteractions host));
               r = clampRecent c h
                     (float64_of_uint64 (RecentSuccessfulInteractions host),
                      float64_of_uint64 (RecentFailedInteractions host))
           in case mergeRecent h r of
                (hsi, hfi) \<Rightarrow>
                  host\<lparr>HistoricSuccessfulInteractions :=
                         uint64_of_float64 (uint64_out_of_range c) hsi,
                       HistoricFailedInteractions :=
                         uint64_of_float64 (uint64_out_of_range c) hfi,
                       RecentSuccessfulInteractions := 0,
                       RecentFailedInteractions := 0,
                       LastHistoricUpdate := bh\<rparr>)"

section \<open>Example data\<close>

text \<open>
  The configuration and the host of the specification's scenario A, a tracker that is
  offline and knows this host, and a renter with two files.
\<close>

definition scenarioA :: "(float64 \<Rightarrow> uint64) \<Rightarrow> hostdb_consts" where
  "scenarioA oor =
     \<lparr>historicInteractionDecay = 995 / 1000, historicInteractionDecayLimit = 500,
      recentInteractionWeightLimit = 1 / 100, uint64_out_of_range = oor\<rparr>"

definition exampleHost :: HostDBEntry where
  "exampleHost =
     \<lparr>PublicKey = ''host'', HistoricSuccessfulInteractions = 100,
      HistoricFailedInteractions = 0, RecentSuccessfulInteractions = 10,
      RecentFailedInteractions = 0, LastHistoricUpdate = 1000\<rparr>"

definition offlineDB :: HostDB where
  "offlineDB = \<lparr>hostTree = [''host'' \<mapsto> exampleHost], blockHeight = 1001, online = False\<rparr>"

definition emptyFile :: File where
  "emptyFile =
     \<lparr>Name = ''f'', PiecesRequired = 0, OptimalRecoveryPieces = 0, TotalPieces = 0,
      Pieces = []\<rparr>"

definition twoFiles :: Renter where
  "twoFiles =
     \<lparr>files = [''a'' \<mapsto> emptyFile\<lparr>Name := ''a''\<rparr>, ''b'' \<mapsto> emptyFile\<lparr>Name := ''b''\<rparr>],
      renterBlockHeight = 0\<rparr>"

text \<open>
  A host with a long history, a host whose counters are so large that \<^verbatim>\<open>float64\<close>
  values of their size are more than one apart, and the file of the specification's
  scenario B.
\<close>

definition busyHost :: HostDBEntry where
  "busyHost =
     \<lparr>PublicKey = ''host'', HistoricSuccessfulInteractions = 200000,
      HistoricFailedInteractions = 0, RecentSuccessfulInteractions = 1000,
      RecentFailedInteractions = 0, LastHistoricUpdate = 1000\<rparr>"

definition hugeHost :: HostDBEntry where
  "hugeHost =
     \<lparr>PublicKey = ''host'', HistoricSuccessfulInteractions = 3 * 2 ^ 61,
      HistoricFailedInteractions = 0, RecentSuccessfulInteractions = 10 ^ 18,
      RecentFailedInteractions = 0, LastHistoricUpdate = 1000\<rparr>"

definition piece :: "bool \<Rightarrow> filePiece" where
  "piece a = \<lparr>Active = a, Repairing = False, Contract = \<lparr>WindowStart = 2000\<rparr>, PieceIndex = 0\<rparr>"

definition scenarioB :: File where
  "scenarioB =
     \<lparr>Name = ''b'', PiecesRequired = 3, OptimalRecoveryPieces = 4, TotalPieces = 5,
      Pieces = [piece True, piece False, piece True, piece False, piece True]\<rparr>"

section \<open>The decay update on concrete records\<close>

lemma update_exampleHost:
  "updateHostHistoricInteractions (scenarioA oor) exampleHost 1001 =
     \<lparr>PublicKey = ''host'', HistoricSuccessfulInteractions = 105,
      HistoricFailedInteractions = 0, RecentSuccessfulInteractions = 0,
      RecentFailedInteractions = 0, LastHistoricUpdate = 1001\<rparr>"
  by code_simp

text \<open>
  C1.  With \<open>DecayLimit = 500\<close>, \<open>WeightLimit = 0.01\<close> and \<open>DecayFactor = 0.995\<close>, the decay
  update of a host with historic counters \<open>(100, 0)\<close>, recent counters \<open>(10, 0)\<close> and
  \<open>LastHistoricUpdate = 1000\<close> at height 1001 stores the historic counters \<open>(105, 0)\<close>,
  the recent counters \<open>(0, 0)\<close> and \<open>LastHistoricUpdate = 1001\<close>, whatever the key of
  the host is.
\<close>

theorem scenario_A_decay_update:
  "updateHostHistoricInteractions (scenarioA oor)
     \<lparr>PublicKey = k, HistoricSuccessfulInteractions = 100,
      HistoricFailedInteractions = 0, RecentSuccessfulInteractions = 10,
      RecentFailedInteractions = 0, LastHistoricUpdate = 1000\<rparr>
     1001 =
   \<lparr>PublicKey = k, HistoricSuccessfulInteractions = 105,
    HistoricFailedInteractions = 0, RecentSuccessfulInteractions = 0,
    RecentFailedInteractions = 0, LastHistoricUpdate = 1001\<rparr>"
  by code_simp

section \<open>The decay update at an unchanged height\<close>

text \<open>
  C9.  The decay update at a height equal to the record's \<open>LastHistoricUpdate\<close> returns
  the record as it was: the four counters and \<open>LastHistoricUpdate\<close> are unchanged.
\<close>

theorem decay_identity:
  "updateHostHistoricInteractions c host (LastHistoricUpdate host) = host"
  by (simp add: updateHostHistoricInteractions_def)

section \<open>The connectivity flag\<close>

text \<open>
  C5.  While the tracker is offline, \<open>IncrementFailedInteractions\<close> returns the tracker
  unchanged for every key, known to the directory or not: no record and no other part
  of the tracker is modified.
\<close>

theorem IncrementFailed_offline_noop:
  "\<not> online hdb \<Longrightarrow> IncrementFailedInteractions c key hdb = hdb"
  by (simp add: IncrementFailedInteractions_def split: option.split)

theorem IncrementFailed_offline_noop_witness:
  "\<not> online offlineDB \<and> Select (hostTree offlineDB) ''host'' = Some exampleHost \<and>
   IncrementFailedInteractions (scenarioA (\<lambda>x. 0)) ''host'' offlineDB = offlineDB"
  using IncrementFailed_offline_noop [of offlineDB "scenarioA (\<lambda>x. 0)" "''host''"]
  by (simp add: offlineDB_def Select_def)

text \<open>
  C10.  For a key the directory knows, \<open>IncrementSuccessfulInteractions\<close> applies the
  decay update at the tracker's height, adds one to the recent successes and writes the
  record back; it does the same while the tracker is offline, where
  \<open>IncrementFailedInteractions\<close> does nothing.
\<close>

theorem IncrementSuccessful_ignores_online:
  "Select (hostTree hdb) key = Some host \<Longrightarrow>
   IncrementSuccessfulInteractions c key hdb =
     hdb\<lparr>hostTree := Modify (hostTree hdb)
       ((updateHostHistoricInteractions c host (blockHeight hdb))
          \<lparr>RecentSuccessfulInteractions :=
             RecentSuccessfulInteractions
               (updateHostHistoricInteractions c host (blockHeight hdb)) + 1\<rparr>)\<rparr>
   \<and> IncrementSuccessfulInteractions c key (hdb\<lparr>online := False\<rparr>) =
       (IncrementSuccessfulInteractions c key hdb)\<lparr>online := False\<rparr>
   \<and> IncrementFailedInteractions c key (hdb\<lparr>online := False\<rparr>) = hdb\<lparr>online := False\<rparr>"
  by (simp add: IncrementSuccessfulInteractions_def IncrementFailedInteractions_def Let_def)

theorem IncrementSuccessful_ignores_online_witness:
  "Select (hostTree offlineDB) ''host'' = Some exampleHost \<and> \<not> online offlineDB \<and>
   hostTree (IncrementSuccessfulInteractions (scenarioA (\<lambda>x. 0)) ''host'' offlineDB) ''host'' =
     Some \<lparr>PublicKey = ''host'', HistoricSuccessfulInteractions = 105,
           HistoricFailedInteractions = 0, RecentSuccessfulInteractions = 1,
           RecentFailedInteractions = 0, LastHistoricUpdate = 1001\<rparr>"
  using IncrementSuccessful_ignores_online [of offlineDB "''host''" exampleHost "scenarioA (\<lambda>x. 0)"]
  by (simp add: offlineDB_def Select_def Modify_def update_exampleHost)

section \<open>Availability and expiry of a file\<close>

lemma Available_loop_iff:
  "Available_loop required active ps \<longleftrightarrow>
     ps \<noteq> [] \<and> required \<le> active + int (length (filter Active ps))"
  by (induction ps arbitrary: active) (auto simp: Let_def)

text \<open>
  C2, as stated: \<open>Available\<close> is true exactly when the number of active pieces is at
  least \<open>PiecesRequired\<close>.  It fails for a file without pieces that requires none.
\<close>

theorem Available_quorum_counterexample:
  "\<not> (Available emptyFile \<longleftrightarrow>
        PiecesRequired emptyFile \<le> int (length (filter Active (Pieces emptyFile))))"
  by (simp add: Available_def emptyFile_def)

text \<open>
  C2, amended.  \<open>Available\<close> is true exactly when the file has at least one piece and the
  number of its active pieces is at least \<open>PiecesRequired\<close>; the result is the same for
  every reordering of the pieces.
\<close>

theorem Available_quorum:
  "(Available f \<longleftrightarrow>
      Pieces f \<noteq> [] \<and> PiecesRequired f \<le> int (length (filter Active (Pieces f)))) \<and>
   (mset ps = mset (Pieces f) \<longrightarrow> Available (f\<lparr>Pieces := ps\<rparr>) = Available f)"
proof -
  have "length (filter Active ps) = length (filter Active (Pieces f))"
    if "mset ps = mset (Pieces f)"
    using that by (metis mset_filter size_mset)
  moreover have "ps = [] \<longleftrightarrow> Pieces f = []" if "mset ps = mset (Pieces f)"
    using that by (metis mset_zero_iff)
  ultimately show ?thesis
    by (auto simp: Available_def Available_loop_iff)
qed

theorem Available_quorum_witness:
  "Pieces scenarioB \<noteq> [] \<and> length (filter Active (Pieces scenarioB)) = 3 \<and>
   Available scenarioB \<and>
   mset (rev (Pieces scenarioB)) = mset (Pieces scenarioB) \<and>
   Available (scenarioB\<lparr>Pieces := rev (Pieces scenarioB)\<rparr>) \<and>
   \<not> Available (scenarioB\<lparr>Pieces := [piece False, piece False, piece True, piece False, piece True]\<rparr>)"
  using Available_quorum [of scenarioB "rev (Pieces scenarioB)"]
    Available_quorum
      [of "scenarioB\<lparr>Pieces := [piece False, piece False, piece True, piece False, piece True]\<rparr>"
          "[]"]
  by (simp add: scenarioB_def piece_def)

text \<open>
  C6.  \<open>TimeRemaining\<close> is 0 for a file without pieces; otherwise it reads the window
  start of the first piece only and is 0 when that lies below the current height and the
  difference of the two otherwise.  With one piece and window start 2000 it is 0 at
  height 2500 and 200 at height 1800.
\<close>

theorem TimeRemaining_first_piece:
  "TimeRemaining r f =
     (case Pieces f of
        [] \<Rightarrow> 0
      | p # ps \<Rightarrow>
          if WindowStart (Contract p) < renterBlockHeight r then 0
          else WindowStart (Contract p) - renterBlockHeight r) \<and>
   TimeRemaining (r\<lparr>renterBlockHeight := 2500\<rparr>)
     (f\<lparr>Pieces := [p\<lparr>Contract := \<lparr>WindowStart = 2000\<rparr>\<rparr>]\<rparr>) = 0 \<and>
   TimeRemaining (r\<lparr>renterBlockHeight := 1800\<rparr>)
     (f\<lparr>Pieces := [p\<lparr>Contract := \<lparr>WindowStart = 2000\<rparr>\<rparr>]\<rparr>) = 200"
  by (simp add: TimeRemaining_def split: list.split)

section \<open>Renaming a file\<close>

text \<open>
  C8, as stated: \<open>Rename\<close> returns the error AlreadyExists whenever the new name is in
  use.  It fails where the current name is absent as well: the first check wins.
\<close>

theorem Rename_errors_counterexample:
  "files twoFiles ''b'' \<noteq> None \<and> fst (Rename twoFiles ''z'' ''b'') \<noteq> Some errAlreadyExists"
  by (simp add: Rename_def twoFiles_def errAlreadyExists_def)

text \<open>
  C8, amended.  \<open>Rename\<close> returns NotFound and the renter unchanged when the current name
  is absent; it returns AlreadyExists and the renter unchanged when the current name is
  present and the new name is in use; whenever it returns an error the renter is
  unchanged, and it returns no error when the current name is present and the new one
  is free.
\<close>

theorem Rename_errors:
  "(files r currentName = None \<longrightarrow>
      Rename r currentName newName = (Some errNotFound, r)) \<and>
   (files r currentName \<noteq> None \<and> files r newName \<noteq> None \<longrightarrow>
      Rename r currentName newName = (Some errAlreadyExists, r)) \<and>
   (fst (Rename r currentName newName) \<noteq> None \<longrightarrow> snd (Rename r currentName newName) = r) \<and>
   (files r currentName \<noteq> None \<and> files r newName = None \<longrightarrow>
      fst (Rename r currentName newName) = None)"
  by (auto simp: Rename_def errNotFound_def errAlreadyExists_def Let_def split: option.splits)

theorem Rename_errors_witness:
  "files twoFiles ''z'' = None \<and>
   Rename twoFiles ''z'' ''c'' = (Some errNotFound, twoFiles) \<and>
   files twoFiles ''a'' \<noteq> None \<and> files twoFiles ''b'' \<noteq> None \<and>
   Rename twoFiles ''a'' ''b'' = (Some errAlreadyExists, twoFiles) \<and>
   files twoFiles ''c'' = None \<and> fst (Rename twoFiles ''a'' ''c'') = None"
  using Rename_errors [of twoFiles "''z''" "''c''"] Rename_errors [of twoFiles "''a''" "''b''"]
    Rename_errors [of twoFiles "''a''" "''c''"]
  by (simp add: twoFiles_def)

section \<open>The rounding error of binary64 arithmetic\<close>

text \<open>
  Rounding to nearest moves a number by at most half a unit in the last place: by the
  fraction \<open>1 / 2 ^ 53\<close> of its size in the normal range, and by at most
  \<open>1 / 2 ^ 1075\<close> below it.
\<close>

lemma round_even_error: "\<bar>of_int (round_even y) - y\<bar> \<le> 1 / 2"
proof -
  have "of_int \<lfloor>y\<rfloor> \<le> y" and "y < of_int \<lfloor>y\<rfloor> + 1"
    by linarith+
  then show ?thesis
    by (simp add: round_even_def Let_def abs_le_iff)
qed

lemma round_even_nonneg: "0 \<le> y \<Longrightarrow> 0 \<le> round_even y"
  by (simp add: round_even_def Let_def)

lemma of_int_ge_bitlen: "0 < p \<Longrightarrow> (2::rat) powi (bitlen p - 1) \<le> of_int p"
proof -
  assume p: "0 < p"
  then have "2 ^ nat (bitlen p - 1) \<le> p" using bitlen_bounds by blast
  then have "(of_int (2 ^ nat (bitlen p - 1)) :: rat) \<le> of_int p" by (simp only: of_int_le_iff)
  moreover have "0 \<le> bitlen p - 1" using p by (simp add: bitlen_alt_def)
  ultimately show ?thesis by (simp add: power_int_def)
qed

lemma of_int_le_bitlen: "0 < q \<Longrightarrow> of_int q \<le> (2::rat) powi (bitlen q)"
proof -
  assume q: "0 < q"
  then have "q < 2 ^ nat (bitlen q)" using bitlen_bounds by blast
  then have "(of_int q :: rat) \<le> of_int (2 ^ nat (bitlen q))" by (simp only: of_int_le_iff)
  moreover have "0 \<le> bitlen q" by (rule bitlen_nonneg)
  ultimately show ?thesis by (simp add: power_int_def)
qed

lemma ilog2_le:
  assumes "x \<noteq> 0"
  shows "2 powi (ilog2 x) \<le> \<bar>x\<bar>"
proof -
  obtain p q where pq: "quotient_of \<bar>x\<bar> = (p, q)" by (cases "quotient_of \<bar>x\<bar>")
  have q: "0 < q" using pq quotient_of_denom_pos by blast
  have x: "\<bar>x\<bar> = of_int p / of_int q" using pq quotient_of_div by blast
  have "0 < \<bar>x\<bar>" using assms by simp
  then have p: "0 < p" using x q by (simp add: zero_less_divide_iff)
  have "2 powi (bitlen p - bitlen q - 1) \<le> \<bar>x\<bar>"
  proof -
    have "(2::rat) powi (bitlen p - bitlen q - 1) = 2 powi (bitlen p - 1) / 2 powi (bitlen q)"
      by (simp add: power_int_diff)
    also have "\<dots> \<le> of_int p / of_int q"
      using of_int_ge_bitlen [OF p] of_int_le_bitlen [OF q] p q
      by (intro frac_le) auto
    finally show ?thesis using x by simp
  qed
  then show ?thesis
    by (simp add: ilog2_def pq Let_def)
qed


lemma fl64_nonneg: "0 \<le> x \<Longrightarrow> 0 \<le> fl64 x"
  by (simp add: fl64_def Let_def round_even_nonneg)

lemma fl64_abs_error:
  assumes "x \<noteq> 0"
  shows "\<bar>fl64 x - x\<bar> \<le> 2 powi (max (ilog2 x) (- 1022) - 53)"
proof -
  define e where "e = max (ilog2 x) (- 1022) - 52"
  define s :: rat where "s = 2 powi e"
  have s: "0 < s" by (simp add: s_def)
  have "fl64 x - x = (of_int (round_even (x / s)) - x / s) * s"
    using assms s by (simp add: fl64_def e_def s_def Let_def algebra_simps)
  then have "\<bar>fl64 x - x\<bar> = \<bar>of_int (round_even (x / s)) - x / s\<bar> * s"
    using s by (simp add: abs_mult)
  also have "\<dots> \<le> (1 / 2) * s"
    using round_even_error [of "x / s"] s by (intro mult_right_mono) auto
  also have "\<dots> = 2 powi (e - 1)"
    by (simp add: s_def power_int_diff)
  finally show ?thesis by (simp add: e_def)
qed

lemma fl64_rel_error:
  assumes "2 powi (- 1022) \<le> \<bar>x\<bar>"
  shows "\<bar>fl64 x - x\<bar> \<le> \<bar>x\<bar> / 2 ^ 53"
proof -
  have x: "x \<noteq> 0" using assms by auto
  have "(2::rat) powi (max (ilog2 x) (- 1022) - 53) = 2 powi (max (ilog2 x) (- 1022)) / 2 ^ 53"
    by (simp add: power_int_diff)
  moreover have "(2::rat) powi (max (ilog2 x) (- 1022)) \<le> \<bar>x\<bar>"
    using ilog2_le [OF x] assms by (simp add: max_def)
  ultimately have "(2::rat) powi (max (ilog2 x) (- 1022) - 53) \<le> \<bar>x\<bar> / 2 ^ 53"
    by (simp add: divide_right_mono)
  then show ?thesis using fl64_abs_error [OF x] by linarith
qed

lemma fl64_error:
  "\<bar>fl64 x - x\<bar> \<le> \<bar>x\<bar> / 2 ^ 53 + 2 powi (- 1075)"
proof (cases "2 powi (- 1022) \<le> \<bar>x\<bar>")
  case True
  have "(0::rat) \<le> 2 powi (- 1075)" by simp
  then show ?thesis using fl64_rel_error [OF True] by linarith
next
  case False
  show ?thesis
  proof (cases "x = 0")
    case True
    then show ?thesis by (simp add: fl64_def)
  next
    case x: False
    have "ilog2 x < - 1022"
    proof (rule ccontr)
      assume "\<not> ilog2 x < - 1022"
      then have "(2::rat) powi (- 1022) \<le> 2 powi (ilog2 x)"
        by (intro power_int_increasing) auto
      then show False using ilog2_le [OF x] False by linarith
    qed
    then have "max (ilog2 x) (- 1022) - 53 = - 1075" by simp
    then have "\<bar>fl64 x - x\<bar> \<le> 2 powi (- 1075)"
      using fl64_abs_error [OF x] by simp
    moreover have "0 \<le> \<bar>x\<bar> / 2 ^ 53" by simp
    ultimately show ?thesis by linarith
  qed
qed

lemma fl64_upper:
  assumes "0 \<le> x"
  shows "fl64 x \<le> x * (1 + 1 / 2 ^ 53) + 1 / 2 ^ 1075"
proof -
  have "(2::rat) powi (- 1075) = 1 / 2 ^ 1075"
    by (simp add: power_int_minus_divide)
  then have "\<bar>fl64 x - x\<bar> \<le> x / 2 ^ 53 + 1 / 2 ^ 1075"
    using fl64_error [of x] assms by simp
  then show ?thesis by (simp add: algebra_simps abs_le_iff)
qed

lemma fl64_lower:
  assumes "1 / 2 \<le> x"
  shows "x * (1 - 1 / 2 ^ 53) \<le> fl64 x"
proof -
  have "(2::rat) powi (- 1022) \<le> 1 / 2"
    by (simp add: power_int_minus_divide)
  then have "2 powi (- 1022) \<le> \<bar>x\<bar>" using assms by linarith
  then have "\<bar>fl64 x - x\<bar> \<le> \<bar>x\<bar> / 2 ^ 53" by (rule fl64_rel_error)
  moreover have "\<bar>x\<bar> = x" using assms by simp
  ultimately have "x - fl64 x \<le> x / 2 ^ 53" by linarith
  moreover have "x * (1 - 1 / 2 ^ 53) = x - x / 2 ^ 53" by (simp add: algebra_simps)
  ultimately show ?thesis by linarith
qed

lemma fl64_zero: "fl64 0 = 0"
  by (simp add: fl64_def)

lemma uint_rat_nonneg: "(0::rat) \<le> of_int (uint w)"
  by (simp only: of_int_0_le_iff uint_ge_0)

lemma float64_of_uint64_nonneg: "0 \<le> float64_of_uint64 w"
  unfolding float64_of_uint64_def by (rule fl64_nonneg) (rule uint_rat_nonneg)

lemma float64_of_uint64_zero_or_half: "float64_of_uint64 w = 0 \<or> 1 / 2 \<le> float64_of_uint64 w"
proof (cases "uint w = 0")
  case True
  then show ?thesis by (simp add: float64_of_uint64_def fl64_zero)
next
  case False
  then have "1 \<le> uint w" using uint_ge_0 [of w] by linarith
  then have x: "(1::rat) \<le> of_int (uint w)" by (simp only: of_int_1_le_iff)
  then have "of_int (uint w) * (1 - 1 / 2 ^ 53) \<le> fl64 (of_int (uint w))"
    by (intro fl64_lower) linarith
  moreover have "(1::rat) * (1 - 1 / 2 ^ 53) \<le> of_int (uint w) * (1 - 1 / 2 ^ 53)"
    using x by (intro mult_right_mono) auto
  ultimately show ?thesis by (simp add: float64_of_uint64_def)
qed

lemma float64_of_uint64_le: "float64_of_uint64 w \<le> 2 ^ 65"
proof -
  have "uint w < 2 ^ 64" using uint_bounded [of w] by simp
  then have "uint w \<le> 2 ^ 64" by simp
  then have x: "(of_int (uint w) :: rat) \<le> 2 ^ 64"
    by (metis of_int_le_iff of_int_numeral of_int_power)
  have x0: "(0::rat) \<le> of_int (uint w)" by (rule uint_rat_nonneg)
  have "fl64 (of_int (uint w)) \<le> of_int (uint w) * (1 + 1 / 2 ^ 53) + 1 / 2 ^ 1075"
    using x0 by (rule fl64_upper)
  moreover have "of_int (uint w) * (1 + 1 / 2 ^ 53) \<le> (2 ^ 64 :: rat) * (1 + 1 / 2 ^ 53)"
    using x by (intro mult_right_mono) auto
  moreover have "(2 ^ 64 :: rat) * (1 + 1 / 2 ^ 53) + 1 / 2 ^ 1075 \<le> 2 ^ 65"
    by simp
  ultimately show ?thesis unfolding float64_of_uint64_def by linarith
qed

lemma round_even_le: "y \<le> of_int k \<Longrightarrow> round_even y \<le> k"
proof -
  assume y: "y \<le> of_int k"
  have f: "\<lfloor>y\<rfloor> \<le> k" using y by (simp add: floor_le_iff)
  show ?thesis
  proof (cases "\<lfloor>y\<rfloor> = k")
    case True
    then have "y - of_int \<lfloor>y\<rfloor> \<le> 0" using y by simp
    then show ?thesis using True by (simp add: round_even_def Let_def)
  next
    case False
    then have "\<lfloor>y\<rfloor> + 1 \<le> k" using f by simp
    then show ?thesis by (simp add: round_even_def Let_def)
  qed
qed

lemma fl64_le_one:
  assumes "0 \<le> x" "x \<le> 1"
  shows "fl64 x \<le> 1"
proof (cases "x = 0")
  case True
  then show ?thesis by (simp add: fl64_zero)
next
  case False
  define e where "e = max (ilog2 x) (- 1022) - 52"
  have "ilog2 x \<le> 0"
  proof (rule ccontr)
    assume "\<not> ilog2 x \<le> 0"
    then have "(2::rat) powi 1 \<le> 2 powi (ilog2 x)"
      by (intro power_int_increasing) auto
    then show False using ilog2_le [OF False] assms by simp
  qed
  then have e: "e \<le> 0" by (simp add: e_def)
  define s :: rat where "s = 2 powi e"
  have s: "0 < s" by (simp add: s_def)
  have inv: "1 / s = of_int (2 ^ nat (- e))"
    using e by (simp add: s_def power_int_def field_simps)
  have "x / s \<le> 1 / s" using assms s by (simp add: divide_right_mono)
  then have "round_even (x / s) \<le> 2 ^ nat (- e)"
    unfolding inv by (rule round_even_le)
  then have "(of_int (round_even (x / s)) :: rat) \<le> of_int (2 ^ nat (- e))"
    by (simp only: of_int_le_iff)
  then have "of_int (round_even (x / s)) * s \<le> (1 / s) * s"
    unfolding inv [symmetric] using s by (intro mult_right_mono) simp_all
  then show ?thesis using False s by (simp add: fl64_def e_def s_def Let_def)
qed

lemma Pow_decay_bounds:
  assumes "0 \<le> d" "d \<le> 1"
  shows "0 \<le> Pow d y \<and> Pow d y \<le> 1"
proof -
  have p: "0 \<le> d ^ nat \<lfloor>y\<rfloor>" "d ^ nat \<lfloor>y\<rfloor> \<le> 1"
    using assms by (simp_all add: power_le_one)
  show ?thesis
    using assms fl64_nonneg [OF p(1)] fl64_le_one [OF p] by (simp add: Pow_def)
qed



section \<open>The weight limit of the recent interactions\<close>

lemma clamp_arith:
  fixes L S T adj R1 R2 R1' R2' u n :: rat
  assumes L: "0 \<le> L" and R: "0 \<le> R1" "0 \<le> R2" and T: "T = R1 + R2" and S: "0 < S"
    and TS: "T * (1 - u) \<le> S" and adj: "0 \<le> adj" "adj \<le> (L / S) * (1 + u) + n"
    and R': "R1' \<le> R1 * adj * (1 + u) + n" "R2' \<le> R2 * adj * (1 + u) + n"
    and u: "0 \<le> u" "u < 1" and n: "0 \<le> n"
  shows "R1' + R2' \<le> L * ((1 + u)^2 / (1 - u)) + T * n * (1 + u) + 2 * n"
proof -
  have T0: "0 \<le> T" using R T by simp
  have "T / S \<le> 1 / (1 - u)"
    using TS S u by (simp add: field_simps)
  then have "(T / S) * (L * (1 + u)) \<le> (1 / (1 - u)) * (L * (1 + u))"
    using L u by (intro mult_right_mono) auto
  moreover have "T * adj \<le> T * ((L / S) * (1 + u) + n)"
    using adj T0 by (intro mult_left_mono) auto
  moreover have "T * ((L / S) * (1 + u) + n) = (T / S) * (L * (1 + u)) + T * n"
    using S by (simp add: field_simps)
  moreover have "(1 / (1 - u)) * (L * (1 + u)) = L * (1 + u) / (1 - u)"
    by simp
  ultimately have "T * adj \<le> L * (1 + u) / (1 - u) + T * n"
    by linarith
  then have "(T * adj) * (1 + u) \<le> (L * (1 + u) / (1 - u) + T * n) * (1 + u)"
    using u by (intro mult_right_mono) auto
  moreover have "R1' + R2' \<le> (T * adj) * (1 + u) + 2 * n"
    using R' T by (simp add: algebra_simps)
  ultimately have "R1' + R2' \<le> (L * (1 + u) / (1 - u) + T * n) * (1 + u) + 2 * n"
    by linarith
  also have "\<dots> = L * ((1 + u)^2 / (1 - u)) + T * n * (1 + u) + 2 * n"
    by (simp add: algebra_simps power2_eq_square add_divide_distrib)
  finally show ?thesis .
qed

lemma clamp_scaled_bound:
  fixes L :: rat
  assumes L: "0 \<le> L"
    and R1: "0 \<le> R1" "R1 = 0 \<or> 1 / 2 \<le> R1" "R1 \<le> 2 ^ 65"
    and R2: "0 \<le> R2" "R2 = 0 \<or> 1 / 2 \<le> R2" "R2 \<le> 2 ^ 65"
    and gt: "L < fadd R1 R2"
  shows "fmul R1 (fdiv L (fadd R1 R2)) + fmul R2 (fdiv L (fadd R1 R2))
           \<le> L * (1 + 4 / 2 ^ 53) + 1 / 2 ^ 1007"
proof -
  define T where "T = R1 + R2"
  define S where "S = fadd R1 R2"
  define adj where "adj = fdiv L S"
  define u :: rat where "u = 1 / 2 ^ 53"
  define n :: rat where "n = 1 / 2 ^ 1075"
  have S: "0 < S" using gt L by (simp add: S_def)
  have ST: "S = fl64 T" by (simp add: S_def T_def fadd_def)
  have "T \<noteq> 0" using S ST by (auto simp: fl64_zero)
  then have T: "1 / 2 \<le> T" using R1 R2 unfolding T_def by linarith
  have TS: "T * (1 - u) \<le> S"
    unfolding ST u_def using T by (rule fl64_lower)
  have LS: "0 \<le> L / S" using L S by simp
  have adj0: "0 \<le> adj" unfolding adj_def fdiv_def using LS by (rule fl64_nonneg)
  have adj1: "adj \<le> (L / S) * (1 + u) + n"
    unfolding adj_def fdiv_def u_def n_def using LS by (rule fl64_upper)
  have R1': "fmul R1 adj \<le> R1 * adj * (1 + u) + n"
    unfolding fmul_def u_def n_def using R1(1) adj0 by (intro fl64_upper) simp
  have R2': "fmul R2 adj \<le> R2 * adj * (1 + u) + n"
    unfolding fmul_def u_def n_def using R2(1) adj0 by (intro fl64_upper) simp
  have "fmul R1 adj + fmul R2 adj \<le> L * ((1 + u)^2 / (1 - u)) + T * n * (1 + u) + 2 * n"
    using L R1(1) R2(1) T_def S TS adj0 adj1 R1' R2'
    by (rule clamp_arith) (simp_all add: u_def n_def)
  moreover have "(1 + u)^2 / (1 - u) \<le> 1 + 4 / 2 ^ 53"
    by (simp add: u_def power2_eq_square)
  then have "L * ((1 + u)^2 / (1 - u)) \<le> L * (1 + 4 / 2 ^ 53)"
    using L by (rule mult_left_mono)
  moreover have "T * n * (1 + u) + 2 * n \<le> 1 / 2 ^ 1007"
  proof -
    define K where "K = n * (1 + u)"
    have K: "0 \<le> K" by (simp add: K_def u_def n_def)
    have "T \<le> 2 ^ 66" using R1(3) R2(3) by (simp add: T_def)
    then have "T * K \<le> 2 ^ 66 * K"
      using K by (rule mult_right_mono)
    moreover have "2 ^ 66 * K + 2 * n \<le> 1 / 2 ^ 1007"
      by (simp add: K_def u_def n_def)
    moreover have "T * n * (1 + u) = T * K"
      by (simp add: K_def)
    ultimately show ?thesis by linarith
  qed
  ultimately show ?thesis
    unfolding adj_def S_def by linarith
qed

lemma clamp_unscaled_bound:
  fixes L :: rat
  assumes L: "0 \<le> L"
    and R1: "0 \<le> R1" "R1 = 0 \<or> 1 / 2 \<le> R1"
    and R2: "0 \<le> R2" "R2 = 0 \<or> 1 / 2 \<le> R2"
    and le: "\<not> L < fadd R1 R2"
  shows "R1 + R2 \<le> L * (1 + 4 / 2 ^ 53) + 1 / 2 ^ 1007"
proof (cases "R1 + R2 = 0")
  case True
  then show ?thesis using L by simp
next
  case False
  then have T: "1 / 2 \<le> R1 + R2" using R1 R2 by linarith
  have "(R1 + R2) * (1 - 1 / 2 ^ 53) \<le> fl64 (R1 + R2)"
    using T by (rule fl64_lower)
  then have "(R1 + R2) * (1 - 1 / 2 ^ 53) \<le> L"
    using le by (simp add: fadd_def)
  then have "R1 + R2 \<le> L / (1 - 1 / 2 ^ 53)"
    by (simp add: field_simps)
  also have "\<dots> = L * (1 / (1 - 1 / 2 ^ 53))" by simp
  also have "\<dots> \<le> L * (1 + 4 / 2 ^ 53)"
    using L by (intro mult_left_mono) simp_all
  finally show ?thesis by simp
qed

lemma fl64_decay_le:
  assumes "0 < d" "d < 1"
  shows "0 \<le> fl64 d \<and> fl64 d \<le> 2"
proof -
  have "fl64 d \<le> d * (1 + 1 / 2 ^ 53) + 1 / 2 ^ 1075"
    using assms by (intro fl64_upper) simp
  moreover have "d * (1 + 1 / 2 ^ 53) \<le> 1 * (1 + 1 / 2 ^ 53)"
    using assms by (intro mult_right_mono) simp_all
  moreover have "1 * (1 + 1 / 2 ^ 53) + 1 / 2 ^ 1075 \<le> (2::rat)" by simp
  ultimately have "fl64 d \<le> 2" by linarith
  then show ?thesis using assms fl64_nonneg [of d] by simp
qed

lemma fmul_decay_bounds:
  assumes h: "0 \<le> h" "h \<le> 2 ^ 65" and d: "0 \<le> d" "d \<le> 2"
  shows "0 \<le> fmul h d \<and> fmul h d \<le> 2 ^ 67"
proof -
  have hd0: "0 \<le> h * d" using h d by simp
  have "h * d \<le> 2 ^ 65 * 2" using h d by (intro mult_mono) simp_all
  then have hd: "h * d \<le> 2 ^ 66" by simp
  have "fl64 (h * d) \<le> (h * d) * (1 + 1 / 2 ^ 53) + 1 / 2 ^ 1075"
    using hd0 by (rule fl64_upper)
  moreover have "(h * d) * (1 + 1 / 2 ^ 53) \<le> 2 ^ 66 * (1 + 1 / 2 ^ 53)"
    using hd by (intro mult_right_mono) simp_all
  moreover have "2 ^ 66 * (1 + 1 / 2 ^ 53) + 1 / 2 ^ 1075 \<le> (2 ^ 67 :: rat)" by simp
  ultimately have "fmul h d \<le> 2 ^ 67" unfolding fmul_def by linarith
  then show ?thesis using fl64_nonneg [OF hd0] by (simp add: fmul_def)
qed

lemma decayedHistoric_bounds:
  assumes "valid_consts c"
  shows "0 \<le> fst (decayedHistoric c host) \<and> fst (decayedHistoric c host) \<le> 2 ^ 67 \<and>
         0 \<le> snd (decayedHistoric c host) \<and> snd (decayedHistoric c host) \<le> 2 ^ 67"
proof -
  have d: "0 \<le> fl64 (historicInteractionDecay c)" "fl64 (historicInteractionDecay c) \<le> 2"
    using fl64_decay_le [of "historicInteractionDecay c"] assms
    by (simp_all add: valid_consts_def)
  have le: "float64_of_uint64 w \<le> 2 ^ 67" for w
    using float64_of_uint64_le [of w] by simp
  show ?thesis
    using fmul_decay_bounds [OF float64_of_uint64_nonneg float64_of_uint64_le d]
      float64_of_uint64_nonneg le
    by (simp add: decayedHistoric_def decayOnce_def Let_def)
qed

lemma cap_thick:
  fixes w H :: rat
  assumes w: "0 < w" "w \<le> 1" and H: "0 \<le> H" "H \<le> 2 ^ 68"
  shows "0 \<le> fmul (fl64 w) (fl64 H) \<and>
         fmul (fl64 w) (fl64 H) \<le> w * H * (1 + 4 / 2 ^ 53) + 1 / 2 ^ 1003"
proof -
  define a :: rat where "a = 1 + 1 / 2 ^ 53"
  define n :: rat where "n = 1 / 2 ^ 1075"
  have a: "0 \<le> a" and n: "0 \<le> n" by (simp_all add: a_def n_def)
  have w0: "0 \<le> fl64 w" using w by (intro fl64_nonneg) simp
  have H0: "0 \<le> fl64 H" using H by (intro fl64_nonneg)
  have w1: "fl64 w \<le> w * a + n" unfolding a_def n_def using w by (intro fl64_upper) simp
  have H1: "fl64 H \<le> H * a + n" unfolding a_def n_def using H by (intro fl64_upper)
  have p0: "0 \<le> fl64 w * fl64 H" using w0 H0 by simp
  have "fl64 w * fl64 H \<le> (w * a + n) * (H * a + n)"
    using w0 H0 w1 H1 by (intro mult_mono) (use w a n H in auto)
  then have "fl64 w * fl64 H * a \<le> (w * a + n) * (H * a + n) * a"
    using a by (rule mult_right_mono)
  moreover have "fmul (fl64 w) (fl64 H) \<le> fl64 w * fl64 H * a + n"
    unfolding fmul_def a_def n_def using p0 by (rule fl64_upper)
  moreover have "(w * a + n) * (H * a + n) * a = (w * H) * a ^ 3 + (n * a) * (w * a + H * a + n)"
    by (simp add: algebra_simps power3_eq_cube)
  moreover have "(w * H) * a ^ 3 \<le> (w * H) * (1 + 4 / 2 ^ 53)"
    using w H by (intro mult_left_mono) (simp_all add: a_def power3_eq_cube)
  moreover have "(n * a) * (w * a + H * a + n) \<le> (n * a) * (1 * a + 2 ^ 68 * a + n)"
    using w H a n by (intro mult_left_mono add_mono mult_right_mono) simp_all
  moreover have "(n * a) * (1 * a + 2 ^ 68 * a + n) + n \<le> 1 / 2 ^ 1003"
    by (simp add: a_def n_def)
  ultimately have "fmul (fl64 w) (fl64 H) \<le> w * H * (1 + 4 / 2 ^ 53) + 1 / 2 ^ 1003"
    by linarith
  then show ?thesis using fl64_nonneg [OF p0] by (simp add: fmul_def)
qed

lemma cap_thin:
  fixes w D :: rat
  assumes w: "0 < w" and D: "0 < D"
  shows "0 \<le> fl64 (w * D) \<and> fl64 (w * D) \<le> w * D * (1 + 4 / 2 ^ 53) + 1 / 2 ^ 1003"
proof -
  have p0: "0 \<le> w * D" using w D by simp
  have "fl64 (w * D) \<le> (w * D) * (1 + 1 / 2 ^ 53) + 1 / 2 ^ 1075"
    using p0 by (rule fl64_upper)
  moreover have "(w * D) * (1 + 1 / 2 ^ 53) \<le> (w * D) * (1 + 4 / 2 ^ 53)"
    using p0 by (intro mult_left_mono) simp_all
  moreover have "(1::rat) / 2 ^ 1075 \<le> 1 / 2 ^ 1003" by simp
  ultimately show ?thesis using fl64_nonneg [OF p0] by linarith
qed

lemma decayRest_bounds:
  assumes c: "valid_consts c" and M: "0 \<le> M1" "0 \<le> M2"
  shows "0 \<le> fst (decayRest c t (M1, M2)) \<and> 0 \<le> snd (decayRest c t (M1, M2)) \<and>
         fst (decayRest c t (M1, M2)) \<le> M1 * (1 + 1 / 2 ^ 53) + 1 / 2 ^ 1075 \<and>
         snd (decayRest c t (M1, M2)) \<le> M2 * (1 + 1 / 2 ^ 53) + 1 / 2 ^ 1075"
proof -
  define d where "d = Pow (fl64 (historicInteractionDecay c)) (float64_of_uint64 (t - 1))"
  have "0 \<le> fl64 (historicInteractionDecay c)" "fl64 (historicInteractionDecay c) \<le> 1"
    using c by (simp_all add: valid_consts_def fl64_nonneg fl64_le_one)
  then have d: "0 \<le> d" "d \<le> 1"
    unfolding d_def using Pow_decay_bounds by blast+
  have step: "0 \<le> fmul M d \<and> fmul M d \<le> M * (1 + 1 / 2 ^ 53) + 1 / 2 ^ 1075"
    if "0 \<le> M" for M
  proof -
    have Md: "0 \<le> M * d" using that d by simp
    have "fl64 (M * d) \<le> (M * d) * (1 + 1 / 2 ^ 53) + 1 / 2 ^ 1075"
      using Md by (rule fl64_upper)
    moreover have "M * d \<le> M * 1" using that d by (intro mult_left_mono)
    then have "(M * d) * (1 + 1 / 2 ^ 53) \<le> (M * 1) * (1 + 1 / 2 ^ 53)"
      by (rule mult_right_mono) simp
    ultimately show ?thesis using fl64_nonneg [OF Md] by (simp add: fmul_def)
  qed
  have same: "M \<le> M * (1 + 1 / 2 ^ 53) + 1 / 2 ^ 1075" if "0 \<le> M" for M :: rat
  proof -
    have "M * 1 \<le> M * (1 + 1 / 2 ^ 53)" using that by (intro mult_left_mono) simp_all
    then show ?thesis by simp
  qed
  show ?thesis
    using step [OF M(1)] step [OF M(2)] same [OF M(1)] same [OF M(2)] M
    by (simp add: decayRest_def d_def Let_def)
qed

lemma uint64_of_float64_le:
  assumes "0 \<le> x"
  shows "of_int (uint (uint64_of_float64 oor x)) \<le> x"
proof (cases "x < 2 ^ 64")
  case True
  have "0 \<le> \<lfloor>x\<rfloor>" using assms by simp
  moreover have "\<lfloor>x\<rfloor> < 2 ^ 64" using True by (simp add: floor_less_iff)
  ultimately have "uint (word_of_int \<lfloor>x\<rfloor> :: 64 word) = \<lfloor>x\<rfloor>"
    by (simp add: uint_word_of_int take_bit_int_eq_self)
  then show ?thesis using assms True by (simp add: uint64_of_float64_def)
next
  case False
  have "uint (oor x) < 2 ^ 64" using uint_bounded [of "oor x"] by simp
  then have "uint (oor x) \<le> 2 ^ 64" by simp
  then have "(of_int (uint (oor x)) :: rat) \<le> 2 ^ 64"
    by (metis of_int_le_iff of_int_numeral of_int_power)
  moreover have "uint64_of_float64 oor x = oor x"
    using assms False by (simp add: uint64_of_float64_def)
  ultimately show ?thesis using False by simp
qed

lemma cap_to_limit:
  fixes t L w X mx :: rat
  assumes t: "t \<le> L * (1 + 4 / 2 ^ 53) + 1 / 2 ^ 1007"
    and L: "L \<le> w * X * (1 + 4 / 2 ^ 53) + 1 / 2 ^ 1003"
    and X: "0 \<le> X" "X \<le> mx" and w: "0 < w"
  shows "t \<le> w * mx * (1 + 9 / 2 ^ 53) + 1 / 2 ^ 1002"
proof -
  define b :: rat where "b = 1 + 4 / 2 ^ 53"
  have b: "0 \<le> b" by (simp add: b_def)
  have "L * b \<le> (w * X * b + 1 / 2 ^ 1003) * b"
    using L b unfolding b_def by (rule mult_right_mono)
  moreover have "(w * X * b + 1 / 2 ^ 1003) * b = (w * X) * (b * b) + (1 / 2 ^ 1003) * b"
    by (simp add: algebra_simps)
  moreover have "w * X \<le> w * mx" using X w by (intro mult_left_mono) simp_all
  then have "(w * X) * (b * b) \<le> (w * mx) * (b * b)"
    by (intro mult_right_mono) (simp_all add: b_def)
  moreover have "(w * mx) * (b * b) \<le> (w * mx) * (1 + 9 / 2 ^ 53)"
    using X w by (intro mult_left_mono) (simp_all add: b_def)
  moreover have "(1 / 2 ^ 1003) * b + 1 / 2 ^ 1007 \<le> 1 / 2 ^ 1002"
    by (simp add: b_def)
  ultimately show ?thesis using t unfolding b_def by linarith
qed

lemma clampRecent_bound:
  assumes c: "valid_consts c"
    and H: "0 \<le> H1" "0 \<le> H2" "H1 + H2 \<le> 2 ^ 68"
    and R1: "0 \<le> R1" "R1 = 0 \<or> 1 / 2 \<le> R1" "R1 \<le> 2 ^ 65"
    and R2: "0 \<le> R2" "R2 = 0 \<or> 1 / 2 \<le> R2" "R2 \<le> 2 ^ 65"
  shows "0 \<le> fst (clampRecent c (H1, H2) (R1, R2)) \<and>
         0 \<le> snd (clampRecent c (H1, H2) (R1, R2)) \<and>
         total (clampRecent c (H1, H2) (R1, R2))
           \<le> recentInteractionWeightLimit c
               * max (historicInteractionDecayLimit c) (H1 + H2) * (1 + 9 / 2 ^ 53)
             + 1 / 2 ^ 1002"
proof -
  define w where "w = recentInteractionWeightLimit c"
  define D where "D = historicInteractionDecayLimit c"
  define mx where "mx = max D (H1 + H2)"
  define L where "L = (if fl64 D < fadd H1 H2 then fmul (fl64 w) (fadd H1 H2) else fl64 (w * D))"
  define X where "X = (if fl64 D < fadd H1 H2 then H1 + H2 else D)"
  have w: "0 < w" "w \<le> 1" and D: "0 < D"
    using c by (simp_all add: valid_consts_def w_def D_def)
  have Hs: "0 \<le> H1 + H2" using H by simp
  have X: "0 \<le> X" "X \<le> mx" using D Hs by (simp_all add: X_def mx_def)
  have L: "0 \<le> L \<and> L \<le> w * X * (1 + 4 / 2 ^ 53) + 1 / 2 ^ 1003"
    using cap_thick [OF w Hs H(3)] cap_thin [OF w(1) D]
    by (simp add: L_def X_def fadd_def)
  have r: "clampRecent c (H1, H2) (R1, R2) =
      (if L < fadd R1 R2
       then (fmul R1 (fdiv L (fadd R1 R2)), fmul R2 (fdiv L (fadd R1 R2)))
       else (R1, R2))"
    by (simp add: clampRecent_def L_def w_def D_def Let_def)
  have nonneg: "0 \<le> fmul R x" if "0 \<le> R" "0 \<le> x" for R x
    unfolding fmul_def using that by (intro fl64_nonneg) simp
  have adj: "0 \<le> fdiv L (fadd R1 R2)"
    unfolding fdiv_def fadd_def using L R1(1) R2(1)
    by (intro fl64_nonneg divide_nonneg_nonneg) simp_all
  have t: "total (clampRecent c (H1, H2) (R1, R2)) \<le> L * (1 + 4 / 2 ^ 53) + 1 / 2 ^ 1007"
  proof (cases "L < fadd R1 R2")
    case True
    then show ?thesis
      using clamp_scaled_bound [of L R1 R2] L R1 R2 by (simp add: r total_def)
  next
    case False
    then show ?thesis
      using clamp_unscaled_bound [of L R1 R2] L R1 R2 by (simp add: r total_def)
  qed
  have "total (clampRecent c (H1, H2) (R1, R2)) \<le> w * mx * (1 + 9 / 2 ^ 53) + 1 / 2 ^ 1002"
    using t _ X w(1) by (rule cap_to_limit) (use L in simp)
  moreover have "0 \<le> fst (clampRecent c (H1, H2) (R1, R2))"
    and "0 \<le> snd (clampRecent c (H1, H2) (R1, R2))"
    using nonneg adj R1(1) R2(1) by (simp_all add: r)
  ultimately show ?thesis by (simp add: w_def mx_def D_def)
qed

lemma merge_arith:
  fixes w mx Hs Rs M :: rat
  assumes M: "M \<le> (Hs + Rs) * (1 + 1 / 2 ^ 53) + 2 * (1 / 2 ^ 1075)"
    and Rs: "Rs \<le> w * mx * (1 + 9 / 2 ^ 53) + 1 / 2 ^ 1002"
    and Hs: "0 \<le> Hs" "Hs \<le> mx" and w: "0 < w" "w \<le> 1"
  shows "M - Hs \<le> (w + 1 / 2 ^ 49) * mx + 1 / 2 ^ 1000"
proof -
  have mx: "0 \<le> mx" using Hs by simp
  have "Rs * (1 + 1 / 2 ^ 53) \<le> (w * mx * (1 + 9 / 2 ^ 53) + 1 / 2 ^ 1002) * (1 + 1 / 2 ^ 53)"
    using Rs by (rule mult_right_mono) simp
  moreover have "(w * mx * (1 + 9 / 2 ^ 53) + 1 / 2 ^ 1002) * (1 + 1 / 2 ^ 53) =
      w * mx + (w * mx) * ((1 + 9 / 2 ^ 53) * (1 + 1 / 2 ^ 53) - 1)
        + (1 / 2 ^ 1002) * (1 + 1 / 2 ^ 53)"
    by (simp add: algebra_simps)
  moreover have "w * mx \<le> 1 * mx" using w mx by (intro mult_right_mono) simp_all
  then have "(w * mx) * ((1 + 9 / 2 ^ 53) * (1 + 1 / 2 ^ 53) - 1)
      \<le> (1 * mx) * ((1 + 9 / 2 ^ 53) * (1 + 1 / 2 ^ 53) - 1)"
    by (rule mult_right_mono) simp
  moreover have "Hs * (1 / 2 ^ 53) \<le> mx * (1 / 2 ^ 53)"
    using Hs by (intro mult_right_mono) simp_all
  moreover have "(1 * mx) * ((1 + 9 / 2 ^ 53) * (1 + 1 / 2 ^ 53) - 1) + mx * (1 / 2 ^ 53)
      \<le> mx * (1 / 2 ^ 49)"
  proof -
    have "(1 * mx) * ((1 + 9 / 2 ^ 53) * (1 + 1 / 2 ^ 53) - 1) + mx * (1 / 2 ^ 53)
        = mx * (((1 + 9 / 2 ^ 53) * (1 + 1 / 2 ^ 53) - 1) + 1 / 2 ^ 53)"
      by (simp add: algebra_simps)
    also have "\<dots> \<le> mx * (1 / 2 ^ 49)"
      using mx by (intro mult_left_mono) simp_all
    finally show ?thesis .
  qed
  moreover have "(1 / 2 ^ 1002) * (1 + 1 / 2 ^ 53) + 2 * (1 / 2 ^ 1075) \<le> (1::rat) / 2 ^ 1000"
    by simp
  moreover have "(Hs + Rs) * (1 + 1 / 2 ^ 53) = Hs + Hs * (1 / 2 ^ 53) + Rs * (1 + 1 / 2 ^ 53)"
    by (simp add: algebra_simps)
  moreover have "(w + 1 / 2 ^ 49) * mx = w * mx + mx * (1 / 2 ^ 49)"
    by (simp add: algebra_simps)
  ultimately show ?thesis using M by linarith
qed

lemma merged_facts:
  assumes c: "valid_consts c"
  obtains H1 H2 R1' R2' where
    "decayedHistoric c host = (H1, H2)"
    "mergedHistoric c host = (fadd H1 R1', fadd H2 R2')"
    "0 \<le> H1" "0 \<le> H2" "0 \<le> fadd H1 R1'" "0 \<le> fadd H2 R2'"
    "R1' + R2' \<le> recentInteractionWeightLimit c
        * max (historicInteractionDecayLimit c) (H1 + H2) * (1 + 9 / 2 ^ 53) + 1 / 2 ^ 1002"
    "fadd H1 R1' + fadd H2 R2'
        \<le> ((H1 + H2) + (R1' + R2')) * (1 + 1 / 2 ^ 53) + 2 * (1 / 2 ^ 1075)"
proof -
  obtain H1 H2 where Hd: "decayedHistoric c host = (H1, H2)"
    by (cases "decayedHistoric c host")
  define R1 where "R1 = float64_of_uint64 (RecentSuccessfulInteractions host)"
  define R2 where "R2 = float64_of_uint64 (RecentFailedInteractions host)"
  obtain R1' R2' where R': "clampRecent c (H1, H2) (R1, R2) = (R1', R2')"
    by (cases "clampRecent c (H1, H2) (R1, R2)")
  have H: "0 \<le> H1" "0 \<le> H2" "H1 \<le> 2 ^ 67" "H2 \<le> 2 ^ 67"
    using decayedHistoric_bounds [OF c, of host] by (simp_all add: Hd)
  then have Hs: "H1 + H2 \<le> 2 ^ 68" by simp
  have R1: "0 \<le> R1" "R1 = 0 \<or> 1 / 2 \<le> R1" "R1 \<le> 2 ^ 65"
    unfolding R1_def
    by (rule float64_of_uint64_nonneg float64_of_uint64_zero_or_half float64_of_uint64_le)+
  have R2: "0 \<le> R2" "R2 = 0 \<or> 1 / 2 \<le> R2" "R2 \<le> 2 ^ 65"
    unfolding R2_def
    by (rule float64_of_uint64_nonneg float64_of_uint64_zero_or_half float64_of_uint64_le)+
  have cl: "0 \<le> R1'" "0 \<le> R2'"
    "R1' + R2' \<le> recentInteractionWeightLimit c
        * max (historicInteractionDecayLimit c) (H1 + H2) * (1 + 9 / 2 ^ 53) + 1 / 2 ^ 1002"
    using clampRecent_bound [OF c H(1,2) Hs R1 R2] by (simp_all add: R' total_def)
  have m: "mergedHistoric c host = (fadd H1 R1', fadd H2 R2')"
    using R' [unfolded R1_def R2_def]
    by (simp add: mergedHistoric_def clampedRecent_def Hd mergeRecent_def)
  define a :: rat where "a = 1 + 1 / 2 ^ 53"
  define n :: rat where "n = 1 / 2 ^ 1075"
  have "fadd H1 R1' \<le> (H1 + R1') * a + n"
    unfolding fadd_def a_def n_def using H(1) cl(1) by (intro fl64_upper) simp
  moreover have "fadd H2 R2' \<le> (H2 + R2') * a + n"
    unfolding fadd_def a_def n_def using H(2) cl(2) by (intro fl64_upper) simp
  moreover have "((H1 + H2) + (R1' + R2')) * a + 2 * n =
      ((H1 + R1') * a + n) + ((H2 + R2') * a + n)"
    by (simp add: algebra_simps)
  ultimately have "fadd H1 R1' + fadd H2 R2' \<le> ((H1 + H2) + (R1' + R2')) * a + 2 * n"
    by linarith
  then have M: "fadd H1 R1' + fadd H2 R2'
      \<le> ((H1 + H2) + (R1' + R2')) * (1 + 1 / 2 ^ 53) + 2 * (1 / 2 ^ 1075)"
    unfolding a_def n_def .
  have M0: "0 \<le> fadd H1 R1'" "0 \<le> fadd H2 R2'"
    unfolding fadd_def using H(1,2) cl(1,2) by (simp_all add: fl64_nonneg)
  show thesis
    using that [OF Hd m H(1,2) M0 cl(3) M] .
qed

lemma stored_arith:
  fixes w mx Hs Rs M F :: rat
  assumes F: "F \<le> M * (1 + 1 / 2 ^ 53) + 2 * (1 / 2 ^ 1075)"
    and M: "M \<le> (Hs + Rs) * (1 + 1 / 2 ^ 53) + 2 * (1 / 2 ^ 1075)"
    and Rs: "Rs \<le> w * mx * (1 + 9 / 2 ^ 53) + 1 / 2 ^ 1002"
    and Hs: "0 \<le> Hs" "Hs \<le> mx" and w: "0 < w" "w \<le> 1"
  shows "F - Hs \<le> (w + 1 / 2 ^ 49) * mx + 1 / 2 ^ 1000"
proof -
  define a :: rat where "a = 1 + 1 / 2 ^ 53"
  define n :: rat where "n = 1 / 2 ^ 1075"
  define b :: rat where "b = 1 + 9 / 2 ^ 53"
  define s :: rat where "s = 1 / 2 ^ 1002"
  have a: "0 \<le> a" "0 \<le> a * a" by (simp_all add: a_def)
  have mx: "0 \<le> mx" using Hs by simp
  have "M * a \<le> ((Hs + Rs) * a + 2 * n) * a"
    using M a(1) unfolding a_def n_def by (rule mult_right_mono)
  moreover have "((Hs + Rs) * a + 2 * n) * a = Hs * (a * a) + Rs * (a * a) + 2 * n * a"
    by (simp add: algebra_simps)
  moreover have "Rs * (a * a) \<le> (w * mx * b + s) * (a * a)"
    using Rs a(2) unfolding b_def s_def by (rule mult_right_mono)
  moreover have "(w * mx * b + s) * (a * a) = w * mx + (w * mx) * (b * (a * a) - 1) + s * (a * a)"
    by (simp add: algebra_simps)
  moreover have "w * mx \<le> 1 * mx" using w mx by (intro mult_right_mono) simp_all
  then have "(w * mx) * (b * (a * a) - 1) \<le> (1 * mx) * (b * (a * a) - 1)"
    by (rule mult_right_mono) (simp add: a_def b_def)
  moreover have "Hs * (a * a) = Hs + Hs * (a * a - 1)"
    by (simp add: algebra_simps)
  moreover have "Hs * (a * a - 1) \<le> mx * (a * a - 1)"
    using Hs by (intro mult_right_mono) (simp_all add: a_def)
  moreover have "(1 * mx) * (b * (a * a) - 1) + mx * (a * a - 1) \<le> mx * (1 / 2 ^ 49)"
  proof -
    have "(1 * mx) * (b * (a * a) - 1) + mx * (a * a - 1) = mx * ((b * (a * a) - 1) + (a * a - 1))"
      by (simp add: algebra_simps)
    also have "\<dots> \<le> mx * (1 / 2 ^ 49)"
      using mx by (intro mult_left_mono) (simp_all add: a_def b_def)
    finally show ?thesis .
  qed
  moreover have "s * (a * a) + 2 * n * a + 2 * n \<le> 1 / 2 ^ 1000"
    by (simp add: a_def n_def s_def)
  moreover have "(w + 1 / 2 ^ 49) * mx = w * mx + mx * (1 / 2 ^ 49)"
    by (simp add: algebra_simps)
  moreover have "F \<le> M * a + 2 * n"
    using F unfolding a_def n_def .
  ultimately show ?thesis by linarith
qed


lemma merged_hugeHost:
  "decayedHistoric (scenarioA oor) hugeHost = (6882941382502876160, 0)"
  "mergedHistoric (scenarioA oor) hugeHost = (6951770796327905280, 0)"
  by code_simp+

lemma update_hugeHost:
  "updateHostHistoricInteractions (scenarioA oor) hugeHost 1001 =
     \<lparr>PublicKey = ''host'', HistoricSuccessfulInteractions = 6951770796327905280,
      HistoricFailedInteractions = 0, RecentSuccessfulInteractions = 0,
      RecentFailedInteractions = 0, LastHistoricUpdate = 1001\<rparr>"
  by code_simp

text \<open>
  C3, as stated: the merged total minus the decayed historic total exceeds \<open>WeightLimit\<close>
  times the larger of \<open>DecayLimit\<close> and the decayed historic total by no more than the
  final truncation to integers can account for, which is less than 2 for two counters.
  It fails for large counters, where the \<^verbatim>\<open>float64\<close> operations round by more than
  that: with the constants of scenario A, historic counters \<open>(3 * 2 ^ 61, 0)\<close> and recent
  counters \<open>(10 ^ 18, 0)\<close>, one block after the last update, the excess is \<open>358.4\<close>, both
  for the values after the merge and for the counters that are stored.
\<close>

theorem recency_clamp_counterexample:
  "total (mergedHistoric (scenarioA (\<lambda>x. 0)) hugeHost)
     - total (decayedHistoric (scenarioA (\<lambda>x. 0)) hugeHost)
     - recentInteractionWeightLimit (scenarioA (\<lambda>x. 0))
       * max (historicInteractionDecayLimit (scenarioA (\<lambda>x. 0)))
             (total (decayedHistoric (scenarioA (\<lambda>x. 0)) hugeHost)) = 1792 / 5 \<and>
   of_int (uint (HistoricSuccessfulInteractions
        (updateHostHistoricInteractions (scenarioA (\<lambda>x. 0)) hugeHost 1001)))
     + of_int (uint (HistoricFailedInteractions
        (updateHostHistoricInteractions (scenarioA (\<lambda>x. 0)) hugeHost 1001)))
     - total (decayedHistoric (scenarioA (\<lambda>x. 0)) hugeHost)
     - recentInteractionWeightLimit (scenarioA (\<lambda>x. 0))
       * max (historicInteractionDecayLimit (scenarioA (\<lambda>x. 0)))
             (total (decayedHistoric (scenarioA (\<lambda>x. 0)) hugeHost)) = 1792 / 5 \<and>
   \<not> (total (mergedHistoric (scenarioA (\<lambda>x. 0)) hugeHost)
          - total (decayedHistoric (scenarioA (\<lambda>x. 0)) hugeHost)
        \<le> recentInteractionWeightLimit (scenarioA (\<lambda>x. 0))
            * max (historicInteractionDecayLimit (scenarioA (\<lambda>x. 0)))
                  (total (decayedHistoric (scenarioA (\<lambda>x. 0)) hugeHost)) + 2)"
proof -
  have w: "recentInteractionWeightLimit (scenarioA (\<lambda>x. 0)) = 1 / 100"
    "historicInteractionDecayLimit (scenarioA (\<lambda>x. 0)) = 500"
    by (simp_all add: scenarioA_def)
  show ?thesis
    by (simp add: merged_hugeHost update_hugeHost total_def w)
qed

text \<open>
  C3, amended.  With the constants in their ranges, the recent contribution merged into
  the historic counters, that is the total of \<open>hsi\<close> and \<open>hfi\<close> after the merge minus their
  total before it (the decayed historic total), is at most \<open>WeightLimit\<close> times the
  larger of \<open>DecayLimit\<close> and the decayed historic total, up to the rounding of the
  \<^verbatim>\<open>float64\<close> operations, which grows with the counters: the weight is exceeded by
  at most \<open>1 / 2 ^ 49\<close>, plus \<open>1 / 2 ^ 1000\<close> for underflow.  The same bound holds for
  the total of the two historic counters that the update stores at any height other than
  that of the last update: their truncation and later decay only lower them.
\<close>

theorem recency_clamp:
  assumes c: "valid_consts c"
  shows "total (mergedHistoric c host) - total (decayedHistoric c host)
           \<le> (recentInteractionWeightLimit c + 1 / 2 ^ 49)
               * max (historicInteractionDecayLimit c) (total (decayedHistoric c host))
             + 1 / 2 ^ 1000 \<and>
         (bh \<noteq> LastHistoricUpdate host \<longrightarrow>
          of_int (uint (HistoricSuccessfulInteractions (updateHostHistoricInteractions c host bh)))
            + of_int (uint (HistoricFailedInteractions (updateHostHistoricInteractions c host bh)))
            - total (decayedHistoric c host)
           \<le> (recentInteractionWeightLimit c + 1 / 2 ^ 49)
               * max (historicInteractionDecayLimit c) (total (decayedHistoric c host))
             + 1 / 2 ^ 1000)"
proof -
  obtain H1 H2 R1' R2' where
    Hd: "decayedHistoric c host = (H1, H2)"
    and m: "mergedHistoric c host = (fadd H1 R1', fadd H2 R2')"
    and H: "0 \<le> H1" "0 \<le> H2" and M0: "0 \<le> fadd H1 R1'" "0 \<le> fadd H2 R2'"
    and Rs: "R1' + R2' \<le> recentInteractionWeightLimit c
        * max (historicInteractionDecayLimit c) (H1 + H2) * (1 + 9 / 2 ^ 53) + 1 / 2 ^ 1002"
    and M: "fadd H1 R1' + fadd H2 R2'
        \<le> ((H1 + H2) + (R1' + R2')) * (1 + 1 / 2 ^ 53) + 2 * (1 / 2 ^ 1075)"
    using merged_facts [OF c, of host] by blast
  have Hs: "0 \<le> H1 + H2" "H1 + H2 \<le> max (historicInteractionDecayLimit c) (H1 + H2)"
    using H by simp_all
  have w: "0 < recentInteractionWeightLimit c" "recentInteractionWeightLimit c \<le> 1"
    using c by (simp_all add: valid_consts_def)
  have first: "fadd H1 R1' + fadd H2 R2' - (H1 + H2)
      \<le> (recentInteractionWeightLimit c + 1 / 2 ^ 49)
          * max (historicInteractionDecayLimit c) (H1 + H2) + 1 / 2 ^ 1000"
    using M Rs Hs w by (rule merge_arith)
  have second: "of_int (uint (HistoricSuccessfulInteractions (updateHostHistoricInteractions c host bh)))
            + of_int (uint (HistoricFailedInteractions (updateHostHistoricInteractions c host bh)))
            - (H1 + H2)
      \<le> (recentInteractionWeightLimit c + 1 / 2 ^ 49)
          * max (historicInteractionDecayLimit c) (H1 + H2) + 1 / 2 ^ 1000"
    if bh: "bh \<noteq> LastHistoricUpdate host"
  proof -
    obtain F1 F2 where F: "decayRest c (bh - LastHistoricUpdate host) (fadd H1 R1', fadd H2 R2') = (F1, F2)"
      by (cases "decayRest c (bh - LastHistoricUpdate host) (fadd H1 R1', fadd H2 R2')")
    have Fb: "0 \<le> F1" "0 \<le> F2"
      "F1 \<le> fadd H1 R1' * (1 + 1 / 2 ^ 53) + 1 / 2 ^ 1075"
      "F2 \<le> fadd H2 R2' * (1 + 1 / 2 ^ 53) + 1 / 2 ^ 1075"
      using decayRest_bounds [OF c M0, of "bh - LastHistoricUpdate host"] by (simp_all add: F)
    have st: "HistoricSuccessfulInteractions (updateHostHistoricInteractions c host bh)
          = uint64_of_float64 (uint64_out_of_range c) F1"
        "HistoricFailedInteractions (updateHostHistoricInteractions c host bh)
          = uint64_of_float64 (uint64_out_of_range c) F2"
      using bh by (simp_all add: updateHostHistoricInteractions_def m F)
    have "of_int (uint (uint64_of_float64 (uint64_out_of_range c) F1)) \<le> F1"
      using Fb(1) by (rule uint64_of_float64_le)
    moreover have "of_int (uint (uint64_of_float64 (uint64_out_of_range c) F2)) \<le> F2"
      using Fb(2) by (rule uint64_of_float64_le)
    moreover have "(fadd H1 R1' + fadd H2 R2') * (1 + 1 / 2 ^ 53) + 2 * (1 / 2 ^ 1075) =
        (fadd H1 R1' * (1 + 1 / 2 ^ 53) + 1 / 2 ^ 1075)
          + (fadd H2 R2' * (1 + 1 / 2 ^ 53) + 1 / 2 ^ 1075)"
      by (simp add: algebra_simps)
    ultimately have "of_int (uint (uint64_of_float64 (uint64_out_of_range c) F1))
        + of_int (uint (uint64_of_float64 (uint64_out_of_range c) F2))
        \<le> (fadd H1 R1' + fadd H2 R2') * (1 + 1 / 2 ^ 53) + 2 * (1 / 2 ^ 1075)"
      using Fb(3,4) by linarith
    then show ?thesis
      unfolding st using M Rs Hs w by (rule stored_arith)
  qed
  show ?thesis
    using first second by (simp add: m Hd total_def)
qed

theorem recency_clamp_witness:
  "valid_consts (scenarioA (\<lambda>x. 0)) \<and>
   (1001 :: BlockHeight) \<noteq> LastHistoricUpdate hugeHost \<and>
   total (mergedHistoric (scenarioA (\<lambda>x. 0)) hugeHost)
     - total (decayedHistoric (scenarioA (\<lambda>x. 0)) hugeHost) = 68829413825029120 \<and>
   (of_int (uint (HistoricSuccessfulInteractions
        (updateHostHistoricInteractions (scenarioA (\<lambda>x. 0)) hugeHost 1001))) :: rat)
     + of_int (uint (HistoricFailedInteractions
        (updateHostHistoricInteractions (scenarioA (\<lambda>x. 0)) hugeHost 1001)))
     - total (decayedHistoric (scenarioA (\<lambda>x. 0)) hugeHost) = 68829413825029120 \<and>
   (68829413825029120 :: rat)
     \<le> (1 / 100 + 1 / 2 ^ 49) * max 500 6882941382502876160 + 1 / 2 ^ 1000"
proof -
  have v: "valid_consts (scenarioA (\<lambda>x. 0))"
    by (simp add: valid_consts_def scenarioA_def)
  have h: "(1001 :: BlockHeight) \<noteq> LastHistoricUpdate hugeHost"
    by (simp add: hugeHost_def)
  have w: "recentInteractionWeightLimit (scenarioA (\<lambda>x. 0)) = 1 / 100"
    "historicInteractionDecayLimit (scenarioA (\<lambda>x. 0)) = 500"
    by (simp_all add: scenarioA_def)
  show ?thesis
    using recency_clamp [OF v, of hugeHost 1001] v h
    by (simp add: merged_hugeHost update_hugeHost total_def w)
qed

section \<open>Two-phase and collapsed decay\<close>

lemma update_exampleHost_two_blocks:
  "updateHostHistoricInteractions (scenarioA oor) exampleHost 1002 =
     \<lparr>PublicKey = ''host'', HistoricSuccessfulInteractions = 105,
      HistoricFailedInteractions = 0, RecentSuccessfulInteractions = 0,
      RecentFailedInteractions = 0, LastHistoricUpdate = 1002\<rparr>"
  by code_simp

lemma collapsed_exampleHost:
  "updateCollapsed (scenarioA oor) exampleHost 1001 =
     \<lparr>PublicKey = ''host'', HistoricSuccessfulInteractions = 105,
      HistoricFailedInteractions = 0, RecentSuccessfulInteractions = 0,
      RecentFailedInteractions = 0, LastHistoricUpdate = 1001\<rparr>"
  by code_simp

lemma collapsed_exampleHost_two_blocks:
  "updateCollapsed (scenarioA oor) exampleHost 1002 =
     \<lparr>PublicKey = ''host'', HistoricSuccessfulInteractions = 105,
      HistoricFailedInteractions = 0, RecentSuccessfulInteractions = 0,
      RecentFailedInteractions = 0, LastHistoricUpdate = 1002\<rparr>"
  by code_simp

lemma update_busyHost:
  "updateHostHistoricInteractions (scenarioA oor) busyHost 1002 =
     \<lparr>PublicKey = ''host'', HistoricSuccessfulInteractions = 199000,
      HistoricFailedInteractions = 0, RecentSuccessfulInteractions = 0,
      RecentFailedInteractions = 0, LastHistoricUpdate = 1002\<rparr>"
  by code_simp

lemma collapsed_busyHost:
  "updateCollapsed (scenarioA oor) busyHost 1002 =
     \<lparr>PublicKey = ''host'', HistoricSuccessfulInteractions = 199005,
      HistoricFailedInteractions = 0, RecentSuccessfulInteractions = 0,
      RecentFailedInteractions = 0, LastHistoricUpdate = 1002\<rparr>"
  by code_simp

lemma float64_of_uint64_1: "float64_of_uint64 1 = 1"
  by code_simp

lemma Pow_one: "Pow x 1 = x"
  by (simp add: Pow_def)

lemma decayCollapsed_one: "decayCollapsed c 1 h = decayOnce c h"
  by (cases h) (simp add: decayCollapsed_def decayOnce_def float64_of_uint64_1 Pow_one Let_def)

lemma decayRest_one: "decayRest c 1 h = h"
  by (simp add: decayRest_def split: prod.split)

text \<open>
  C4, as stated: the two-phase decay and the collapsed decay give different results
  whenever the recent counters are not zero.  It fails for the host of scenario A, whose
  recent counters are \<open>(10, 0)\<close>, two blocks after its last update: the history is below
  the decay limit before and after the merge, so neither computation decays anything.
\<close>

theorem two_phase_vs_collapsed_counterexample:
  "RecentSuccessfulInteractions exampleHost \<noteq> 0 \<and>
   updateCollapsed (scenarioA (\<lambda>x. 0)) exampleHost 1002 =
     updateHostHistoricInteractions (scenarioA (\<lambda>x. 0)) exampleHost 1002"
  by (simp add: update_exampleHost_two_blocks collapsed_exampleHost_two_blocks)
     (simp add: exampleHost_def)

text \<open>
  C4, amended.  The two-phase decay is not equivalent to the collapsed decay: with the
  constants of scenario A they store different historic counters (199000 and 199005)
  for a host with historic counters \<open>(200000, 0)\<close> and recent counters \<open>(1000, 0)\<close> two
  blocks after its last update.  They do not differ on every record with recent
  counters: one block after the last update they agree on every record.
\<close>

theorem two_phase_vs_collapsed:
  "(bh - LastHistoricUpdate host = 1 \<longrightarrow>
      updateCollapsed c host bh = updateHostHistoricInteractions c host bh) \<and>
   RecentSuccessfulInteractions busyHost \<noteq> 0 \<and>
   1002 - LastHistoricUpdate busyHost = 2 \<and>
   updateCollapsed (scenarioA oor) busyHost 1002 \<noteq>
     updateHostHistoricInteractions (scenarioA oor) busyHost 1002"
proof -
  have "updateCollapsed c host bh = updateHostHistoricInteractions c host bh"
    if "bh - LastHistoricUpdate host = 1"
    using that
    by (simp add: updateCollapsed_def updateHostHistoricInteractions_def decayCollapsed_one
          decayRest_one mergedHistoric_def clampedRecent_def decayedHistoric_def Let_def)
  moreover have "RecentSuccessfulInteractions busyHost \<noteq> 0"
    and "1002 - LastHistoricUpdate busyHost = 2"
    by (simp_all add: busyHost_def)
  moreover have "updateCollapsed (scenarioA oor) busyHost 1002 \<noteq>
      updateHostHistoricInteractions (scenarioA oor) busyHost 1002"
    by (simp add: update_busyHost collapsed_busyHost)
  ultimately show ?thesis by blast
qed

theorem two_phase_vs_collapsed_witness:
  "1001 - LastHistoricUpdate exampleHost = 1 \<and>
   RecentSuccessfulInteractions exampleHost \<noteq> 0 \<and>
   updateCollapsed (scenarioA (\<lambda>x. 0)) exampleHost 1001 =
     \<lparr>PublicKey = ''host'', HistoricSuccessfulInteractions = 105,
      HistoricFailedInteractions = 0, RecentSuccessfulInteractions = 0,
      RecentFailedInteractions = 0, LastHistoricUpdate = 1001\<rparr> \<and>
   updateHostHistoricInteractions (scenarioA (\<lambda>x. 0)) exampleHost 1001 =
     \<lparr>PublicKey = ''host'', HistoricSuccessfulInteractions = 105,
      HistoricFailedInteractions = 0, RecentSuccessfulInteractions = 0,
      RecentFailedInteractions = 0, LastHistoricUpdate = 1001\<rparr>"
proof -
  have one: "1001 - LastHistoricUpdate exampleHost = 1"
    and recent: "RecentSuccessfulInteractions exampleHost \<noteq> 0"
    by (simp_all add: exampleHost_def)
  have "updateCollapsed (scenarioA (\<lambda>x. 0)) exampleHost 1001 =
      updateHostHistoricInteractions (scenarioA (\<lambda>x. 0)) exampleHost 1001"
    using two_phase_vs_collapsed [of 1001 exampleHost "scenarioA (\<lambda>x. 0)"] one by blast
  then show ?thesis
    using one recent by (simp add: update_exampleHost)
qed

section \<open>The decay update at a height below the last update\<close>

text \<open>
  C7.  \<open>LastHistoricUpdate\<close> does not stay monotone: the update stores the height it is
  given whatever the record's last update was.  For the host of scenario A, last updated
  at height 1000, the update at height 999 finds the unsigned difference
  \<open>999 - 1000 = 2 ^ 64 - 1\<close>, which is not zero, merges the recent counters as if time had
  passed and stores \<open>LastHistoricUpdate = 999\<close>, below the former 1000.
\<close>

theorem LastHistoricUpdate_lowered:
  "LastHistoricUpdate (updateHostHistoricInteractions c host bh) = bh \<and>
   (999 :: BlockHeight) - LastHistoricUpdate exampleHost = 2 ^ 64 - 1 \<and>
   updateHostHistoricInteractions (scenarioA oor) exampleHost 999 =
     \<lparr>PublicKey = ''host'', HistoricSuccessfulInteractions = 105,
      HistoricFailedInteractions = 0, RecentSuccessfulInteractions = 0,
      RecentFailedInteractions = 0, LastHistoricUpdate = 999\<rparr> \<and>
   LastHistoricUpdate (updateHostHistoricInteractions (scenarioA oor) exampleHost 999)
     < LastHistoricUpdate exampleHost"
proof -
  have last: "LastHistoricUpdate (updateHostHistoricInteractions c host bh) = bh" for c host bh
    by (simp add: updateHostHistoricInteractions_def Let_def split: prod.split)
  have "updateHostHistoricInteractions (scenarioA oor) exampleHost 999 =
     \<lparr>PublicKey = ''host'', HistoricSuccessfulInteractions = 105,
      HistoricFailedInteractions = 0, RecentSuccessfulInteractions = 0,
      RecentFailedInteractions = 0, LastHistoricUpdate = 999\<rparr>"
    by code_simp
  moreover have "(999 :: BlockHeight) - LastHistoricUpdate exampleHost = 2 ^ 64 - 1"
    and "(999 :: BlockHeight) < LastHistoricUpdate exampleHost"
    by (simp_all add: exampleHost_def)
  ultimately show ?thesis using last by simp
qed

end
